theory Spec2Isabelle
  imports Main
begin

section \<open>Session and authentication module of the exam platform\<close>

text \<open>
  A shallow embedding of \<^verbatim>\<open>auth.py\<close> (class \<^verbatim>\<open>AuthenticationSystem\<close>) and of
  the part of \<^verbatim>\<open>connection.py\<close> it calls (\<^verbatim>\<open>execute_query\<close>).

  Strings are byte lists. Exceptions are values of \<open>pyerror\<close>. Python's \<^verbatim>\<open>None\<close>
  returned by \<^verbatim>\<open>authenticate\<close> is \<open>None\<close> of the option type.
\<close>

datatype pyerror = ValueError | TypeError | AttributeError | DatabaseError

subsection \<open>The users table and \<^verbatim>\<open>execute_query\<close>\<close>

text \<open>
  One row of the table \<^verbatim>\<open>users\<close>, with the columns the query of
  \<^verbatim>\<open>authenticate\<close> reads (alias \<^verbatim>\<open>u\<close> in the SQL text). \<^verbatim>\<open>linked_id\<close>
  may be NULL.
\<close>

record user_row =
  u_id :: int
  u_username :: string
  u_role :: string
  u_linked_id :: "int option"
  u_email :: string
  u_is_active :: bool

text \<open>A row of the result set: the six columns of the SELECT list.\<close>

record result_row =
  r_id :: int
  r_username :: string
  r_role :: string
  r_linked_id :: "int option"
  r_email :: string
  r_display_name :: string

text \<open>
  What can happen inside \<^verbatim>\<open>execute_query\<close>:
  \<^item> \<open>Up\<close>: the connection opens and the statement runs;
  \<^item> \<open>Connect_refused\<close>: \<^verbatim>\<open>SimpleConnection.get_connection\<close> catches the error of
    \<^verbatim>\<open>psycopg2.connect\<close> and returns \<^verbatim>\<open>None\<close>;
  \<^item> \<open>Execute_raises\<close>: \<^verbatim>\<open>cursor.execute\<close> raises and the handler's rollback works;
  \<^item> \<open>Rollback_raises\<close>: \<^verbatim>\<open>cursor.execute\<close> raises and \<^verbatim>\<open>conn.rollback()\<close> in the
    handler raises too (a connection that broke), so the exception leaves
    \<^verbatim>\<open>execute_query\<close>.
\<close>

datatype db_condition = Up | Connect_refused | Execute_raises | Rollback_raises

record database =
  users :: "user_row list"
  condition :: db_condition

text \<open>
  \<^verbatim>\<open>SimpleConnection.get_connection()\<close>: the connection, or \<^verbatim>\<open>None\<close> when
  \<^verbatim>\<open>psycopg2.connect\<close> raised. A connection is the database it is open on.
\<close>

definition get_connection :: "database \<Rightarrow> database option" where
  "get_connection db = (if condition db = Connect_refused then None else Some db)"

text \<open>
  \<^verbatim>\<open>execute_query(query, params)\<close> with the default \<^verbatim>\<open>fetch=True\<close>. The SQL text
  with its parameters is the function \<open>query\<close> from the table to the result set.
  Without a connection the result is the empty list; so it is when the statement
  raises and the handler finishes.
\<close>

definition execute_query :: "database \<Rightarrow> (user_row list \<Rightarrow> 'r list) \<Rightarrow> pyerror + 'r list" where
  "execute_query db query =
     (case get_connection db of
        None \<Rightarrow> Inr []
      | Some conn \<Rightarrow>
          (case condition conn of
             Up \<Rightarrow> Inr (query (users conn))
           | Execute_raises \<Rightarrow> Inr []
           | Rollback_raises \<Rightarrow> Inl DatabaseError
           | Connect_refused \<Rightarrow> Inr []))"

subsection \<open>\<^verbatim>\<open>AuthenticationSystem.authenticate\<close>\<close>

text \<open>
  The CASE expression of the SELECT list. The first literal is
  \<^verbatim>\<open>'Etudiant Test'\<close> with an acute accent on its first letter (two bytes in UTF-8).
\<close>

definition display_name_case :: "user_row \<Rightarrow> string" where
  "display_name_case u =
     (if u_role u = ''etudiant'' then CHR 0xC3 # CHR 0x89 # ''tudiant Test''
      else if u_role u = ''professeur'' then ''Professeur Test''
      else u_username u)"

definition select_list :: "user_row \<Rightarrow> result_row" where
  "select_list u =
     \<lparr>r_id = u_id u, r_username = u_username u, r_role = u_role u,
      r_linked_id = u_linked_id u, r_email = u_email u,
      r_display_name = display_name_case u\<rparr>"

text \<open>
  \<^verbatim>\<open>SELECT ... FROM users u WHERE u.username = %s AND u.is_active = TRUE\<close>, with
  the parameter \<open>name\<close>.
\<close>

definition users_query :: "string \<Rightarrow> user_row list \<Rightarrow> result_row list" where
  "users_query name rows =
     map select_list (filter (\<lambda>u. u_username u = name \<and> u_is_active u) rows)"

text \<open>The dictionary \<^verbatim>\<open>authenticate\<close> returns, with its four keys.\<close>

record user_data =
  username :: string
  role :: string
  linked_id :: "int option"
  display_name :: string

text \<open>
  \<^verbatim>\<open>authenticate(username, password)\<close>. The bare \<^verbatim>\<open>except\<close> turns an exception of
  \<^verbatim>\<open>execute_query\<close> into \<^verbatim>\<open>None\<close>; \<^verbatim>\<open>if result\<close> is the test for a non-empty
  list and \<^verbatim>\<open>if password\<close> the test for a non-empty string.
\<close>

definition authenticate :: "database \<Rightarrow> string \<Rightarrow> string \<Rightarrow> user_data option" where
  "authenticate db name password =
     (case execute_query db (users_query name) of
        Inl e \<Rightarrow> None
      | Inr result \<Rightarrow>
          (case result of
             [] \<Rightarrow> None
           | user # rest \<Rightarrow>
               if password \<noteq> [] then
                 Some \<lparr>username = r_username user, role = r_role user,
                       linked_id = r_linked_id user,
                       display_name = r_display_name user\<rparr>
               else None))"

text \<open>
  \<^verbatim>\<open>hash_password\<close>: the SHA-256 digest of \<^verbatim>\<open>hashlib\<close> is a parameter. No other
  definition of this theory uses it, as no other function of \<^verbatim>\<open>auth.py\<close> calls it.
\<close>

definition hash_password :: "(string \<Rightarrow> string) \<Rightarrow> string \<Rightarrow> string" where
  "hash_password sha256_hexdigest password = sha256_hexdigest password"

subsection \<open>The session state\<close>

text \<open>
  \<^verbatim>\<open>st.session_state\<close> is a dictionary from strings to Python values; \<open>pyval\<close>
  has the kinds of value this program stores there. A \<^verbatim>\<open>datetime\<close> is naive (as
  \<^verbatim>\<open>datetime.now()\<close> returns it) and is the number of microseconds since
  0001-01-01T00:00:00; a \<^verbatim>\<open>timedelta\<close> is a number of microseconds. The value
  ranges of \<^verbatim>\<open>datetime\<close> (years 1 to 9999) and \<^verbatim>\<open>timedelta\<close> are not modelled.
\<close>

datatype pyval =
  PNone | PBool bool | PInt int | PStr string | PDatetime int | PDict user_data

type_synonym session_state = "string \<rightharpoonup> pyval"

text \<open>Python's truth value of an object. A \<open>user_data\<close> dictionary has four keys.\<close>

fun truthy :: "pyval \<Rightarrow> bool" where
  "truthy PNone = False"
| "truthy (PBool b) = b"
| "truthy (PInt n) = (n \<noteq> 0)"
| "truthy (PStr s) = (s \<noteq> [])"
| "truthy (PDatetime d) = True"
| "truthy (PDict u) = True"

text \<open>The column \<^verbatim>\<open>linked_id\<close> as a Python value: NULL is \<^verbatim>\<open>None\<close>.\<close>

fun linked_value :: "int option \<Rightarrow> pyval" where
  "linked_value None = PNone"
| "linked_value (Some n) = PInt n"

text \<open>\<^verbatim>\<open>timedelta(minutes=m)\<close>, in microseconds.\<close>

definition timedelta_minutes :: "int \<Rightarrow> int" where
  "timedelta_minutes m = m * 60000000"

subsection \<open>\<^verbatim>\<open>initialize_session\<close>, \<^verbatim>\<open>logout\<close>, \<^verbatim>\<open>check_session_timeout\<close>, \<^verbatim>\<open>update_activity\<close>\<close>

text \<open>
  \<^verbatim>\<open>initialize_session(user_data)\<close>. \<open>now1\<close> and \<open>now2\<close> are the values of the two
  calls of \<^verbatim>\<open>datetime.now()\<close>, in the order of the dictionary display.
  \<^verbatim>\<open>session_state.update\<close> stores the four entries into the existing state; two
  item assignments follow, under keys built from the role. \<open>user_data\<close> has the key
  \<^verbatim>\<open>display_name\<close>, so \<^verbatim>\<open>get\<close> returns its value.
\<close>

definition initialize_session ::
    "user_data \<Rightarrow> int \<Rightarrow> int \<Rightarrow> session_state \<Rightarrow> session_state" where
  "initialize_session user_data now1 now2 st =
     (let st1 = st(''authenticated'' \<mapsto> PBool True,
                   ''user'' \<mapsto> PDict user_data,
                   ''login_time'' \<mapsto> PDatetime now1,
                   ''last_activity'' \<mapsto> PDatetime now2);
          r = role user_data;
          st2 = st1(r @ ''_id'' \<mapsto> linked_value (linked_id user_data));
          st3 = st2(r @ ''_name'' \<mapsto> PStr (display_name user_data))
      in st3)"

text \<open>
  The first statement of \<^verbatim>\<open>logout\<close>:
  \<^verbatim>\<open>st.session_state.get('user', {}).get('username', 'Inconnu')\<close>. A value under
  \<^verbatim>\<open>'user'\<close> that is not a dictionary has no method \<^verbatim>\<open>get\<close>.
\<close>

definition logout_username :: "session_state \<Rightarrow> pyerror + string" where
  "logout_username st =
     (case st ''user'' of
        None \<Rightarrow> Inr ''Inconnu''
      | Some (PDict u) \<Rightarrow> Inr (username u)
      | Some other \<Rightarrow> Inl AttributeError)"

text \<open>
  \<^verbatim>\<open>logout()\<close>: the name is computed for the log line, then the loop deletes every key
  of the state, which leaves the empty dictionary.
\<close>

definition logout :: "session_state \<Rightarrow> pyerror + session_state" where
  "logout st =
     (case logout_username st of
        Inl e \<Rightarrow> Inl e
      | Inr name \<Rightarrow> Inr Map.empty)"

text \<open>
  \<^verbatim>\<open>check_session_timeout(timeout_minutes)\<close>. \<open>now\<close> is the value of
  \<^verbatim>\<open>datetime.now()\<close>; \<open>fromisoformat\<close> is \<^verbatim>\<open>datetime.fromisoformat\<close> of the
  standard library, a parameter: it returns the datetime a string denotes or raises.
  Subtracting anything but a datetime from \<^verbatim>\<open>datetime.now()\<close> raises
  \<^verbatim>\<open>TypeError\<close>.
\<close>

definition check_session_timeout ::
    "(string \<Rightarrow> pyerror + int) \<Rightarrow> int \<Rightarrow> int \<Rightarrow> session_state \<Rightarrow> pyerror + bool" where
  "check_session_timeout fromisoformat now timeout_minutes st =
     (case st ''last_activity'' of
        None \<Rightarrow> Inr True
      | Some v \<Rightarrow>
          (case (case v of
                   PStr s \<Rightarrow> fromisoformat s
                 | PDatetime d \<Rightarrow> Inr d
                 | other \<Rightarrow> Inl TypeError) of
             Inl e \<Rightarrow> Inl e
           | Inr last_activity \<Rightarrow>
               Inr (now - last_activity > timedelta_minutes timeout_minutes)))"

text \<open>
  The test of \<^verbatim>\<open>update_activity\<close>:
  \<^verbatim>\<open>'authenticated' in st.session_state and st.session_state['authenticated']\<close>.
\<close>

definition is_authenticated :: "session_state \<Rightarrow> bool" where
  "is_authenticated st =
     (case st ''authenticated'' of None \<Rightarrow> False | Some v \<Rightarrow> truthy v)"

definition update_activity :: "int \<Rightarrow> session_state \<Rightarrow> session_state" where
  "update_activity now st =
     (if is_authenticated st then st(''last_activity'' \<mapsto> PDatetime now) else st)"

subsection \<open>A reading of \<^verbatim>\<open>datetime.fromisoformat\<close>\<close>

text \<open>
  \<open>check_session_timeout\<close> takes the parser as a parameter, and the theorems below hold
  for every parser. \<open>fromisoformat_basic\<close> is one instance, used at concrete inputs: it
  reads the two layouts that \<^verbatim>\<open>datetime.isoformat()\<close> writes for a naive datetime,
  \<^verbatim>\<open>YYYY-MM-DDTHH:MM:SS\<close> and \<^verbatim>\<open>YYYY-MM-DDTHH:MM:SS.ffffff\<close> (any character
  may stand between date and time), and raises \<^verbatim>\<open>ValueError\<close> on every other
  string. The day count is the proleptic Gregorian ordinal of \<^verbatim>\<open>datetime\<close>.
\<close>

definition digit :: "char \<Rightarrow> int option" where
  "digit c = (let n = (of_char c :: int) in if 48 \<le> n \<and> n \<le> 57 then Some (n - 48) else None)"

fun number :: "int \<Rightarrow> string \<Rightarrow> int option" where
  "number acc [] = Some acc"
| "number acc (c # cs) = (case digit c of None \<Rightarrow> None | Some d \<Rightarrow> number (10 * acc + d) cs)"

definition is_leap :: "int \<Rightarrow> bool" where
  "is_leap y = (y mod 4 = 0 \<and> (y mod 100 \<noteq> 0 \<or> y mod 400 = 0))"

definition days_in_month :: "int \<Rightarrow> int \<Rightarrow> int" where
  "days_in_month y m =
     (if m = 2 then (if is_leap y then 29 else 28)
      else if m = 4 \<or> m = 6 \<or> m = 9 \<or> m = 11 then 30 else 31)"

definition days_before_year :: "int \<Rightarrow> int" where
  "days_before_year y = (y - 1) * 365 + (y - 1) div 4 - (y - 1) div 100 + (y - 1) div 400"

definition days_before_month :: "int \<Rightarrow> int \<Rightarrow> int" where
  "days_before_month y m = sum_list (map (days_in_month y) [1..m - 1])"

definition ymd2ord :: "int \<Rightarrow> int \<Rightarrow> int \<Rightarrow> int" where
  "ymd2ord y m d = days_before_year y + days_before_month y m + d"

definition datetime ::
    "int \<Rightarrow> int \<Rightarrow> int \<Rightarrow> int \<Rightarrow> int \<Rightarrow> int \<Rightarrow> int \<Rightarrow> pyerror + int" where
  "datetime y mo d h mi s us =
     (if 1 \<le> y \<and> y \<le> 9999 \<and> 1 \<le> mo \<and> mo \<le> 12 \<and> 1 \<le> d \<and> d \<le> days_in_month y mo \<and>
         h < 24 \<and> mi < 60 \<and> s < 60 \<and> us < 1000000
      then Inr (((((ymd2ord y mo d - 1) * 24 + h) * 60 + mi) * 60 + s) * 1000000 + us)
      else Inl ValueError)"

definition fromisoformat_basic :: "string \<Rightarrow> pyerror + int" where
  "fromisoformat_basic s =
     (if (length s = 19 \<or> (length s = 26 \<and> s ! 19 = CHR ''.'')) \<and>
         s ! 4 = CHR ''-'' \<and> s ! 7 = CHR ''-'' \<and> s ! 13 = CHR '':'' \<and> s ! 16 = CHR '':''
      then
        (case (number 0 (take 4 s), number 0 (take 2 (drop 5 s)), number 0 (take 2 (drop 8 s)),
               number 0 (take 2 (drop 11 s)), number 0 (take 2 (drop 14 s)),
               number 0 (take 2 (drop 17 s)), number 0 (drop 20 s)) of
           (Some y, Some mo, Some d, Some h, Some mi, Some sec, Some us) \<Rightarrow>
             datetime y mo d h mi sec us
         | _ \<Rightarrow> Inl ValueError)
      else Inl ValueError)"

subsection \<open>Sequences of operations\<close>

text \<open>
  The operations on the session, each with the values that \<^verbatim>\<open>datetime.now()\<close>
  returns during the call (and, for the timeout check, the timeout in minutes).
  \<open>run\<close> applies a sequence of them and stops at the first exception.
\<close>

datatype event =
  Establish user_data int int | Touch int | IsExpired int int | Terminate

fun step ::
    "(string \<Rightarrow> pyerror + int) \<Rightarrow> event \<Rightarrow> session_state \<Rightarrow> pyerror + session_state" where
  "step p (Establish u now1 now2) st = Inr (initialize_session u now1 now2 st)"
| "step p (Touch now) st = Inr (update_activity now st)"
| "step p (IsExpired now m) st =
     (case check_session_timeout p now m st of Inl e \<Rightarrow> Inl e | Inr b \<Rightarrow> Inr st)"
| "step p Terminate st = logout st"

fun run ::
    "(string \<Rightarrow> pyerror + int) \<Rightarrow> event list \<Rightarrow> session_state \<Rightarrow> pyerror + session_state" where
  "run p [] st = Inr st"
| "run p (e # es) st =
     (case step p e st of Inl err \<Rightarrow> Inl err | Inr st' \<Rightarrow> run p es st')"

text \<open>The clock readings of a sequence, in the order in which the calls read the clock.\<close>

fun readings :: "event \<Rightarrow> int list" where
  "readings (Establish u now1 now2) = [now1, now2]"
| "readings (Touch now) = [now]"
| "readings (IsExpired now m) = [now]"
| "readings Terminate = []"

definition clock_readings :: "event list \<Rightarrow> int list" where
  "clock_readings es = concat (map readings es)"

text \<open>
  The invariant of the session: login time and last activity are both absent, or both
  are datetimes and the last activity is not before the login.
\<close>

definition activity_after_login :: "session_state \<Rightarrow> bool" where
  "activity_after_login st =
     (case (st ''login_time'', st ''last_activity'') of
        (None, None) \<Rightarrow> True
      | (Some (PDatetime l), Some (PDatetime a)) \<Rightarrow> l \<le> a
      | other \<Rightarrow> False)"

text \<open>
  The invariant as it is preserved step by step: \<open>c\<close> bounds the clock readings so far,
  and the entry under \<^verbatim>\<open>'user'\<close>, when there is one, is a dictionary.
\<close>

definition session_ok :: "int \<Rightarrow> session_state \<Rightarrow> bool" where
  "session_ok c st =
     ((st ''user'' = None \<or> (\<exists>u. st ''user'' = Some (PDict u))) \<and>
      ((st ''login_time'' = None \<and> st ''last_activity'' = None \<and> \<not> is_authenticated st) \<or>
       (\<exists>l a. st ''login_time'' = Some (PDatetime l) \<and>
              st ''last_activity'' = Some (PDatetime a) \<and> l \<le> a \<and> a \<le> c)))"

section \<open>Concrete inputs\<close>

text \<open>A small users table, two identities, and sessions built from them.\<close>

definition alice :: user_row where
  "alice = \<lparr>u_id = 1, u_username = ''alice'', u_role = ''etudiant'',
            u_linked_id = Some 42, u_email = ''alice@univ.example'', u_is_active = True\<rparr>"

definition bob :: user_row where
  "bob = \<lparr>u_id = 2, u_username = ''bob'', u_role = ''chef_departement'',
          u_linked_id = None, u_email = ''bob@univ.example'', u_is_active = False\<rparr>"

definition campus :: database where
  "campus = \<lparr>users = [alice, bob], condition = Up\<rparr>"

definition etudiant :: user_data where
  "etudiant = \<lparr>username = ''alice'', role = ''etudiant'', linked_id = Some 42,
               display_name = CHR 0xC3 # CHR 0x89 # ''tudiant Test''\<rparr>"

definition professeur :: user_data where
  "professeur = \<lparr>username = ''carol'', role = ''professeur'', linked_id = Some 7,
                 display_name = ''Professeur Test''\<rparr>"

text \<open>A login of \<open>etudiant\<close> one second after the epoch.\<close>

definition student_session :: session_state where
  "student_session = initialize_session etudiant 1000000 1000000 Map.empty"

definition stored_as_string :: session_state where
  "stored_as_string = student_session(''last_activity'' \<mapsto> PStr ''2024-01-01T00:00:00'')"




text \<open>A session whose entry \<^verbatim>\<open>user\<close> is \<^verbatim>\<open>None\<close>.\<close>

definition broken_session :: session_state where
  "broken_session = [''authenticated'' \<mapsto> PBool True, ''user'' \<mapsto> PNone]"

definition working_day :: "event list" where
  "working_day =
     [IsExpired 5 60, Touch 6, Establish etudiant 10 11, Touch 20, IsExpired 30 60,
      Terminate, Establish professeur 40 40, Establish etudiant 50 52, Touch 60]"

section \<open>Properties of \<^verbatim>\<open>authenticate\<close>\<close>

lemma authenticate_Up:
  "condition db = Up \<Longrightarrow>
   authenticate db name password =
     (case filter (\<lambda>u. u_username u = name \<and> u_is_active u) (users db) of
        [] \<Rightarrow> None
      | u # rest \<Rightarrow>
          if password \<noteq> [] then
            Some \<lparr>username = u_username u, role = u_role u, linked_id = u_linked_id u,
                  display_name = display_name_case u\<rparr>
          else None)"
  by (simp add: authenticate_def execute_query_def get_connection_def users_query_def
      select_list_def split: list.splits)

lemma authenticate_not_Up:
  "condition db \<noteq> Up \<Longrightarrow> authenticate db name password = None"
  by (cases "condition db")
    (simp_all add: authenticate_def execute_query_def get_connection_def)





text \<open>
  C2. \<open>authenticate\<close> returns \<open>None\<close>, never an identity, whenever no row of the users
  table is active with the given username, whatever the secret and whatever happens
  inside the lookup; inactive rows count as absent ones: removing them from the table
  changes no result; and \<open>authenticate\<close> returns \<open>None\<close> on the empty secret, whatever
  the table holds.
\<close>

theorem authenticate_failure:
  "(\<not> (\<exists>u\<in>set (users db). u_username u = name \<and> u_is_active u) \<longrightarrow>
      authenticate db name secret = None) \<and>
   authenticate db name secret =
     authenticate (db\<lparr>users := filter u_is_active (users db)\<rparr>) name secret \<and>
   authenticate db name [] = None"
proof (intro conjI impI)
  assume no: "\<not> (\<exists>u\<in>set (users db). u_username u = name \<and> u_is_active u)"
  then have "filter (\<lambda>u. u_username u = name \<and> u_is_active u) (users db) = []"
    by (simp add: filter_empty_conv)
  then show "authenticate db name secret = None"
    by (cases "condition db") (simp_all add: authenticate_Up authenticate_not_Up)
next
  have "filter (\<lambda>u. u_username u = name \<and> u_is_active u) (filter u_is_active (users db)) =
      filter (\<lambda>u. u_username u = name \<and> u_is_active u) (users db)"
    by (simp add: conj_commute cong: conj_cong)
  then show "authenticate db name secret =
      authenticate (db\<lparr>users := filter u_is_active (users db)\<rparr>) name secret"
    by (cases "condition db") (simp_all add: authenticate_Up authenticate_not_Up)
next
  show "authenticate db name [] = None"
    by (cases "condition db")
      (simp_all add: authenticate_Up authenticate_not_Up split: list.splits)
qed

theorem authenticate_failure_witness:
  "\<not> (\<exists>u\<in>set (users campus). u_username u = ''bob'' \<and> u_is_active u) \<and>
   authenticate campus ''bob'' ''secret'' = None \<and>
   authenticate campus ''alice'' [] = None"
proof -
  have h: "\<not> (\<exists>u\<in>set (users campus). u_username u = ''bob'' \<and> u_is_active u)"
    by (simp add: campus_def alice_def bob_def)
  from authenticate_failure [of campus "''bob''" "''secret''"] h
  have a: "authenticate campus ''bob'' ''secret'' = None" by blast
  from authenticate_failure [of campus "''alice''" "''secret''"]
  have b: "authenticate campus ''alice'' [] = None" by blast
  from h a b show ?thesis by blast
qed

text \<open>
  C9. For every username, every state of the directory and any two non-empty secrets,
  \<open>authenticate\<close> returns the same result: the secret is read only by the test that
  it is not empty. (\<open>hash_password\<close> is not part of the definition of \<open>authenticate\<close>.)
\<close>

theorem authenticate_ignores_secret:
  "s1 \<noteq> [] \<Longrightarrow> s2 \<noteq> [] \<Longrightarrow> authenticate db name s1 = authenticate db name s2"
  by (simp add: authenticate_def split: sum.splits list.splits)

theorem authenticate_ignores_secret_witness:
  "''hunter2'' \<noteq> [] \<and> ''x'' \<noteq> [] \<and>
   authenticate campus ''alice'' ''hunter2'' = authenticate campus ''alice'' ''x''"
  using authenticate_ignores_secret [of "''hunter2''" "''x''" campus "''alice''"] by simp

text \<open>
  C7 as stated fails: when the lookup faults, \<open>authenticate\<close> returns the very value it
  returns when the table has no such user. Here the table holds the active user
  \<open>alice\<close> and the exception leaves \<open>execute_query\<close>; the result equals that of a
  served lookup on an empty table.
\<close>

theorem authenticate_fault_counterexample:
  "\<not> (authenticate \<lparr>users = [alice], condition = Rollback_raises\<rparr> ''alice'' ''x''
        \<noteq> authenticate \<lparr>users = [], condition = Up\<rparr> ''alice'' ''x'')"
  by (simp add: authenticate_def execute_query_def get_connection_def users_query_def)

text \<open>
  C7, amended. Whenever the lookup faults (the connection is refused, the statement
  raises, or the exception leaves \<open>execute_query\<close>), \<open>authenticate\<close> returns \<open>None\<close>,
  which is the result of a served lookup that finds no user: the fault is not
  distinguishable from "no such user".
\<close>

theorem authenticate_fault_is_none:
  "condition db \<noteq> Up \<Longrightarrow>
   authenticate db name secret = None \<and>
   authenticate db name secret = authenticate \<lparr>users = [], condition = Up\<rparr> name secret"
  by (cases "condition db")
    (simp_all add: authenticate_def execute_query_def get_connection_def users_query_def)

theorem authenticate_fault_is_none_witness:
  "condition \<lparr>users = [alice], condition = Connect_refused\<rparr> \<noteq> Up \<and>
   authenticate \<lparr>users = [alice], condition = Connect_refused\<rparr> ''alice'' ''x'' = None \<and>
   authenticate \<lparr>users = [alice], condition = Connect_refused\<rparr> ''alice'' ''x'' =
     authenticate \<lparr>users = [], condition = Up\<rparr> ''alice'' ''x''"
  using authenticate_fault_is_none
    [of "\<lparr>users = [alice], condition = Connect_refused\<rparr>" "''alice''" "''x''"]
  by (simp add: authenticate_def execute_query_def get_connection_def users_query_def)

section \<open>Properties of the session operations\<close>

subsection \<open>Keys built from the role\<close>

text \<open>
  A key \<^verbatim>\<open>f'{role}_id'\<close> or \<^verbatim>\<open>f'{role}_name'\<close> is never one of the four fixed keys,
  whatever the role: the endings differ.
\<close>

lemma role_id_key:
  "r @ ''_id'' \<noteq> ''authenticated''" "r @ ''_id'' \<noteq> ''user''"
  "r @ ''_id'' \<noteq> ''login_time''" "r @ ''_id'' \<noteq> ''last_activity''"
proof -
  have a: "\<And>k. take 2 (rev k) \<noteq> ''di'' \<Longrightarrow> r @ ''_id'' \<noteq> k"
    by auto
  show "r @ ''_id'' \<noteq> ''authenticated''" by (rule a) simp
  show "r @ ''_id'' \<noteq> ''user''" by (rule a) simp
  show "r @ ''_id'' \<noteq> ''login_time''" by (rule a) simp
  show "r @ ''_id'' \<noteq> ''last_activity''" by (rule a) simp
qed

lemma role_name_key:
  "r @ ''_name'' \<noteq> ''authenticated''" "r @ ''_name'' \<noteq> ''user''"
  "r @ ''_name'' \<noteq> ''login_time''" "r @ ''_name'' \<noteq> ''last_activity''"
proof -
  have a: "\<And>k. take 3 (rev k) \<noteq> ''ema'' \<Longrightarrow> r @ ''_name'' \<noteq> k"
    by auto
  show "r @ ''_name'' \<noteq> ''authenticated''" by (rule a) simp
  show "r @ ''_name'' \<noteq> ''user''" by (rule a) simp
  show "r @ ''_name'' \<noteq> ''login_time''" by (rule a) simp
  show "r @ ''_name'' \<noteq> ''last_activity''" by (rule a) simp
qed

lemmas role_keys =
  role_id_key role_name_key role_id_key [THEN not_sym] role_name_key [THEN not_sym]

lemma initialize_session_apply:
  "initialize_session u t1 t2 st k =
     (if k = role u @ ''_name'' then Some (PStr (display_name u))
      else if k = role u @ ''_id'' then Some (linked_value (linked_id u))
      else if k = ''last_activity'' then Some (PDatetime t2)
      else if k = ''login_time'' then Some (PDatetime t1)
      else if k = ''user'' then Some (PDict u)
      else if k = ''authenticated'' then Some (PBool True)
      else st k)"
  by (simp add: initialize_session_def Let_def)

subsection \<open>\<^verbatim>\<open>check_session_timeout\<close>\<close>

text \<open>
  C3. For every session and every timeout: when the session has no entry
  \<^verbatim>\<open>last_activity\<close> the check returns true; when the entry is a datetime \<open>d\<close>, or a
  string that parses to \<open>d\<close>, the check returns true exactly when \<open>now - d\<close> is strictly
  greater than the timeout. With a timeout of 60 minutes it is false at 59 minutes
  59 seconds elapsed, and true for a session with no recorded activity.
\<close>

theorem check_session_timeout_exact:
  "(st ''last_activity'' = None \<longrightarrow> check_session_timeout p now m st = Inr True) \<and>
   (\<forall>d. st ''last_activity'' = Some (PDatetime d) \<longrightarrow>
        check_session_timeout p now m st = Inr (now - d > timedelta_minutes m)) \<and>
   (\<forall>s d. st ''last_activity'' = Some (PStr s) \<and> p s = Inr d \<longrightarrow>
        check_session_timeout p now m st = Inr (now - d > timedelta_minutes m)) \<and>
   (st ''last_activity'' = Some (PDatetime (now - 3599000000)) \<longrightarrow>
        check_session_timeout p now 60 st = Inr False) \<and>
   (st ''last_activity'' = None \<longrightarrow> check_session_timeout p now 60 st = Inr True)"
  by (simp add: check_session_timeout_def timedelta_minutes_def)

theorem check_session_timeout_exact_witness:
  "student_session ''last_activity'' = Some (PDatetime (3600000000 - 3599000000)) \<and>
   check_session_timeout fromisoformat_basic 3600000000 60 student_session = Inr False \<and>
   check_session_timeout fromisoformat_basic 3601000001 60 student_session = Inr True \<and>
   Map.empty ''last_activity'' = (None :: pyval option) \<and>
   check_session_timeout fromisoformat_basic 0 60 Map.empty = Inr True"
proof -
  have la: "student_session ''last_activity'' = Some (PDatetime (3600000000 - 3599000000))"
    by (simp add: student_session_def initialize_session_apply)
  have la': "student_session ''last_activity'' = Some (PDatetime 1000000)"
    by (simp add: student_session_def initialize_session_apply)
  have e: "Map.empty ''last_activity'' = (None :: pyval option)" by simp
  from check_session_timeout_exact [of student_session fromisoformat_basic 3600000000 60] la
  have a: "check_session_timeout fromisoformat_basic 3600000000 60 student_session = Inr False"
    by blast
  from check_session_timeout_exact [of student_session fromisoformat_basic 3601000001 60] la'
  have "check_session_timeout fromisoformat_basic 3601000001 60 student_session =
      Inr (3601000001 - 1000000 > timedelta_minutes 60)" by blast
  then have b: "check_session_timeout fromisoformat_basic 3601000001 60 student_session = Inr True"
    by (simp add: timedelta_minutes_def)
  from check_session_timeout_exact [of Map.empty fromisoformat_basic 0 60] e
  have c: "check_session_timeout fromisoformat_basic 0 60 Map.empty = Inr True" by blast
  from la a b e c show ?thesis by blast
qed

text \<open>
  C10. For every session whose entry \<^verbatim>\<open>last_activity\<close> is a string \<open>s\<close> that
  \<^verbatim>\<open>fromisoformat\<close> parses to the datetime \<open>d\<close>, the check returns what it returns for
  the same session holding \<open>d\<close> itself, at every clock value and timeout.
\<close>

theorem check_session_timeout_string:
  "st ''last_activity'' = Some (PStr s) \<Longrightarrow> fromisoformat s = Inr d \<Longrightarrow>
   check_session_timeout fromisoformat now m st =
     check_session_timeout fromisoformat now m (st(''last_activity'' \<mapsto> PDatetime d))"
  by (simp add: check_session_timeout_def)

text \<open>A string that the parser rejects makes the check raise the parser's exception.\<close>

lemma check_session_timeout_malformed:
  "st ''last_activity'' = Some (PStr s) \<Longrightarrow> fromisoformat s = Inl e \<Longrightarrow>
   check_session_timeout fromisoformat now m st = Inl e"
  by (simp add: check_session_timeout_def)

lemma parse_new_year: "fromisoformat_basic ''2024-01-01T00:00:00'' = Inr 63839664000000000"
  by code_simp

theorem check_session_timeout_string_witness:
  "stored_as_string ''last_activity'' = Some (PStr ''2024-01-01T00:00:00'') \<and>
   fromisoformat_basic ''2024-01-01T00:00:00'' = Inr 63839664000000000 \<and>
   check_session_timeout fromisoformat_basic 63839667600000001 60 stored_as_string =
     check_session_timeout fromisoformat_basic 63839667600000001 60
       (stored_as_string(''last_activity'' \<mapsto> PDatetime 63839664000000000)) \<and>
   check_session_timeout fromisoformat_basic 63839667600000001 60 stored_as_string = Inr True"
proof -
  have h: "stored_as_string ''last_activity'' = Some (PStr ''2024-01-01T00:00:00'')"
    by (simp add: stored_as_string_def)
  from check_session_timeout_string [where st = stored_as_string and s = "''2024-01-01T00:00:00''"
      and fromisoformat = fromisoformat_basic and d = 63839664000000000
      and now = 63839667600000001 and m = 60] h parse_new_year
  have e: "check_session_timeout fromisoformat_basic 63839667600000001 60 stored_as_string =
     check_session_timeout fromisoformat_basic 63839667600000001 60
       (stored_as_string(''last_activity'' \<mapsto> PDatetime 63839664000000000))" by blast
  have "check_session_timeout fromisoformat_basic 63839667600000001 60
       (stored_as_string(''last_activity'' \<mapsto> PDatetime 63839664000000000)) = Inr True"
    by (simp add: check_session_timeout_def timedelta_minutes_def)
  with e h parse_new_year show ?thesis by simp
qed

subsection \<open>\<^verbatim>\<open>initialize_session\<close>\<close>

text \<open>
  C4 as stated fails: a field of the previous session survives. After a login as
  \<open>etudiant\<close>, a login as \<open>professeur\<close> leaves the entry \<^verbatim>\<open>etudiant_id\<close> of the first
  login in the session.
\<close>

theorem initialize_session_counterexample:
  "initialize_session professeur 20 20 (initialize_session etudiant 10 10 Map.empty)
     ''etudiant_id'' = Some (PInt 42)"
  by (simp add: initialize_session_apply professeur_def etudiant_def)

text \<open>
  C4, amended. For every prior session state, \<open>initialize_session\<close> stores
  \<^verbatim>\<open>authenticated = True\<close>, the identity under \<^verbatim>\<open>user\<close>, the first clock reading under
  \<^verbatim>\<open>login_time\<close>, the second under \<^verbatim>\<open>last_activity\<close>, and the linked id and the
  display name of the identity under the two keys built from its role; every other
  key keeps the entry (or the absence of an entry) it had in the prior state.
\<close>

theorem initialize_session_merges:
  "initialize_session u t1 t2 st ''authenticated'' = Some (PBool True) \<and>
   initialize_session u t1 t2 st ''user'' = Some (PDict u) \<and>
   initialize_session u t1 t2 st ''login_time'' = Some (PDatetime t1) \<and>
   initialize_session u t1 t2 st ''last_activity'' = Some (PDatetime t2) \<and>
   initialize_session u t1 t2 st (role u @ ''_id'') = Some (linked_value (linked_id u)) \<and>
   initialize_session u t1 t2 st (role u @ ''_name'') = Some (PStr (display_name u)) \<and>
   (\<forall>k. k \<notin> {''authenticated'', ''user'', ''login_time'', ''last_activity'',
              role u @ ''_id'', role u @ ''_name''} \<longrightarrow>
        initialize_session u t1 t2 st k = st k)"
  by (simp add: initialize_session_apply role_keys)

theorem initialize_session_merges_witness:
  "''etudiant_name'' \<notin> {''authenticated'', ''user'', ''login_time'', ''last_activity'',
      role professeur @ ''_id'', role professeur @ ''_name''} \<and>
   initialize_session professeur 20 21 student_session ''etudiant_name'' =
     Some (PStr (CHR 0xC3 # CHR 0x89 # ''tudiant Test'')) \<and>
   initialize_session professeur 20 21 student_session ''login_time'' = Some (PDatetime 20) \<and>
   initialize_session professeur 20 21 student_session ''last_activity'' = Some (PDatetime 21) \<and>
   initialize_session professeur 20 21 student_session ''professeur_id'' = Some (PInt 7)"
proof -
  note m = initialize_session_merges [of professeur 20 21 student_session]
  have k: "''etudiant_name'' \<notin> {''authenticated'', ''user'', ''login_time'', ''last_activity'',
      role professeur @ ''_id'', role professeur @ ''_name''}"
    by (simp add: professeur_def)
  have old: "student_session ''etudiant_name'' = Some (PStr (CHR 0xC3 # CHR 0x89 # ''tudiant Test''))"
    by (simp add: student_session_def initialize_session_apply etudiant_def)
  from m have frame: "\<forall>k. k \<notin> {''authenticated'', ''user'', ''login_time'', ''last_activity'',
      role professeur @ ''_id'', role professeur @ ''_name''} \<longrightarrow>
        initialize_session professeur 20 21 student_session k = student_session k"
    by (elim conjE)
  from frame [rule_format, OF k] old
  have a: "initialize_session professeur 20 21 student_session ''etudiant_name'' =
     Some (PStr (CHR 0xC3 # CHR 0x89 # ''tudiant Test''))" by simp
  from m have b: "initialize_session professeur 20 21 student_session ''login_time'' =
      Some (PDatetime 20)" by (elim conjE)
  from m have c: "initialize_session professeur 20 21 student_session ''last_activity'' =
      Some (PDatetime 21)" by (elim conjE)
  from m have "initialize_session professeur 20 21 student_session (role professeur @ ''_id'') =
      Some (linked_value (linked_id professeur))" by (elim conjE)
  then have d: "initialize_session professeur 20 21 student_session ''professeur_id'' =
      Some (PInt 7)" by (simp add: professeur_def)
  show ?thesis
    by (intro conjI) (rule k, rule a, rule b, rule c, rule d)
qed

subsection \<open>\<^verbatim>\<open>logout\<close>\<close>

text \<open>
  C5 as stated fails: not every session is discarded. On a session whose entry
  \<^verbatim>\<open>user\<close> is \<^verbatim>\<open>None\<close>, the first statement of \<open>logout\<close> raises
  \<^verbatim>\<open>AttributeError\<close>, before any key is deleted.
\<close>

theorem logout_clears_counterexample:
  "broken_session ''user'' = Some PNone \<and> logout broken_session = Inl AttributeError \<and>
   logout broken_session \<noteq> Inr Map.empty"
  by (simp add: broken_session_def logout_def logout_username_def)

text \<open>
  C5, amended. For every session whose entry \<^verbatim>\<open>user\<close> is absent or a dictionary (as
  \<open>initialize_session\<close> stores it), \<open>logout\<close> returns the empty session, whatever the
  other entries; it returns the empty session on the empty session; \<open>logout\<close> after
  \<open>logout\<close> is \<open>logout\<close>; and the timeout check on the session that \<open>logout\<close> leaves
  returns true, at every clock value and timeout.
\<close>

theorem logout_clears:
  assumes "st ''user'' = None \<or> (\<exists>u. st ''user'' = Some (PDict u))"
  shows "logout st = Inr Map.empty \<and>
         logout Map.empty = Inr Map.empty \<and>
         (case logout st of Inl e \<Rightarrow> Inl e | Inr st' \<Rightarrow> logout st') = logout st \<and>
         (case logout st of Inl e \<Rightarrow> Inl e | Inr st' \<Rightarrow> check_session_timeout p now m st')
           = Inr True"
  using assms
  by (auto simp add: logout_def logout_username_def check_session_timeout_def)

text \<open>
  An entry \<^verbatim>\<open>user\<close> of another type makes the first statement of \<open>logout\<close> raise, before
  any key is deleted. No function of \<^verbatim>\<open>auth.py\<close> stores such an entry.
\<close>

lemma logout_user_not_dict:
  "st ''user'' = Some v \<Longrightarrow> (\<forall>u. v \<noteq> PDict u) \<Longrightarrow> logout st = Inl AttributeError"
  by (cases v) (simp_all add: logout_def logout_username_def)

theorem logout_clears_witness:
  "(\<exists>u. student_session ''user'' = Some (PDict u)) \<and>
   logout student_session = Inr Map.empty \<and>
   (case logout student_session of Inl e \<Rightarrow> Inl e
    | Inr st' \<Rightarrow> check_session_timeout fromisoformat_basic 5 60 st') = Inr True"
proof -
  have h: "\<exists>u. student_session ''user'' = Some (PDict u)"
    by (simp add: student_session_def initialize_session_apply role_keys)
  then have h': "student_session ''user'' = None \<or>
      (\<exists>u. student_session ''user'' = Some (PDict u))"
    by blast
  from logout_clears [where st = student_session and p = fromisoformat_basic
      and now = 5 and m = 60] h' h
  show ?thesis by blast
qed

subsection \<open>\<^verbatim>\<open>update_activity\<close>\<close>

text \<open>
  C6. For every session: when it is not authenticated (no entry \<^verbatim>\<open>authenticated\<close>, or
  a false one), \<open>update_activity\<close> returns it unchanged; when it is authenticated,
  \<open>update_activity\<close> stores the clock reading under \<^verbatim>\<open>last_activity\<close> and changes no
  other key. No expiry is checked: on an authenticated session that the timeout check
  reports expired, the reading is stored all the same, and the check at that reading
  then compares a zero idle time with the timeout.
\<close>

theorem update_activity_frame:
  "(\<not> is_authenticated st \<longrightarrow> update_activity now st = st) \<and>
   (is_authenticated st \<longrightarrow>
      update_activity now st ''last_activity'' = Some (PDatetime now) \<and>
      (\<forall>k. k \<noteq> ''last_activity'' \<longrightarrow> update_activity now st k = st k)) \<and>
   (is_authenticated st \<and> check_session_timeout p now m st = Inr True \<longrightarrow>
      update_activity now st ''last_activity'' = Some (PDatetime now) \<and>
      check_session_timeout p now m (update_activity now st) = Inr (0 > timedelta_minutes m))"
  by (simp add: update_activity_def check_session_timeout_def)

theorem update_activity_frame_witness:
  "\<not> is_authenticated Map.empty \<and> update_activity 7 Map.empty = Map.empty \<and>
   is_authenticated student_session \<and>
   check_session_timeout fromisoformat_basic 3601000001 60 student_session = Inr True \<and>
   update_activity 3601000001 student_session ''last_activity'' = Some (PDatetime 3601000001) \<and>
   update_activity 3601000001 student_session ''login_time'' = Some (PDatetime 1000000) \<and>
   check_session_timeout fromisoformat_basic 3601000001 60
     (update_activity 3601000001 student_session) = Inr False"
proof -
  have n: "\<not> is_authenticated Map.empty" by (simp add: is_authenticated_def)
  have y: "is_authenticated student_session"
    by (simp add: is_authenticated_def student_session_def initialize_session_apply role_keys)
  have x: "check_session_timeout fromisoformat_basic 3601000001 60 student_session = Inr True"
    by (simp add: check_session_timeout_def student_session_def initialize_session_apply
        timedelta_minutes_def)
  have lt: "student_session ''login_time'' = Some (PDatetime 1000000)"
    by (simp add: student_session_def initialize_session_apply role_keys)
  from update_activity_frame [of Map.empty 7 fromisoformat_basic 0] n
  have a: "update_activity 7 Map.empty = Map.empty" by blast
  note f = update_activity_frame [of student_session 3601000001 fromisoformat_basic 60]
  from f y have b: "update_activity 3601000001 student_session ''last_activity'' =
      Some (PDatetime 3601000001)" by blast
  from f y have "update_activity 3601000001 student_session ''login_time'' =
      student_session ''login_time''" by simp
  with lt have c: "update_activity 3601000001 student_session ''login_time'' =
      Some (PDatetime 1000000)" by simp
  from f y x have "check_session_timeout fromisoformat_basic 3601000001 60
     (update_activity 3601000001 student_session) = Inr (0 > timedelta_minutes 60)" by blast
  then have d: "check_session_timeout fromisoformat_basic 3601000001 60
     (update_activity 3601000001 student_session) = Inr False"
    by (simp add: timedelta_minutes_def)
  from n a y x b c d show ?thesis by blast
qed

subsection \<open>The invariant along every sequence of operations\<close>

lemma session_ok_empty: "session_ok c Map.empty"
  by (simp add: session_ok_def is_authenticated_def)

lemma session_ok_mono: "session_ok c st \<Longrightarrow> c \<le> c' \<Longrightarrow> session_ok c' st"
  unfolding session_ok_def by (elim conjE disjE exE) force+

lemma session_ok_invariant: "session_ok c st \<Longrightarrow> activity_after_login st"
  by (auto simp add: session_ok_def activity_after_login_def)

lemma step_session_ok:
  assumes ok: "session_ok c st"
    and srt: "sorted (readings e)"
    and ge: "\<forall>t\<in>set (readings e). c \<le> t"
  shows "\<exists>st'. step p e st = Inr st' \<and> session_ok (last (c # readings e)) st'"
proof (cases e)
  case (Establish u t1 t2)
  with srt have "t1 \<le> t2" by simp
  then have "session_ok t2 (initialize_session u t1 t2 st)"
    by (simp add: session_ok_def initialize_session_apply role_keys)
  with Establish show ?thesis by simp
next
  case (Touch t)
  with ge have ct: "c \<le> t" by simp
  show ?thesis
  proof (cases "is_authenticated st")
    case True
    with ok obtain l a where la: "st ''login_time'' = Some (PDatetime l)"
      "st ''last_activity'' = Some (PDatetime a)" "l \<le> a" "a \<le> c"
      by (auto simp add: session_ok_def)
    from ok have u: "st ''user'' = None \<or> (\<exists>u. st ''user'' = Some (PDict u))"
      by (simp add: session_ok_def)
    from la ct have "l \<le> t" by simp
    with True la u have "session_ok t (update_activity t st)"
      by (simp add: session_ok_def update_activity_def)
    with Touch show ?thesis by simp
  next
    case False
    then have "update_activity t st = st" by (simp add: update_activity_def)
    with Touch session_ok_mono [OF ok ct] show ?thesis by simp
  qed
next
  case (IsExpired t m)
  with ge have ct: "c \<le> t" by simp
  from ok have "\<exists>b. check_session_timeout p t m st = Inr b"
    by (auto simp add: session_ok_def check_session_timeout_def)
  with IsExpired session_ok_mono [OF ok ct] show ?thesis by auto
next
  case Terminate
  from ok have "logout st = Inr Map.empty"
    by (auto simp add: session_ok_def logout_def logout_username_def)
  with Terminate show ?thesis by (simp add: session_ok_empty)
qed

lemma run_session_ok:
  "session_ok c st \<Longrightarrow> sorted (clock_readings es) \<Longrightarrow>
   \<forall>t\<in>set (clock_readings es). c \<le> t \<Longrightarrow>
   \<exists>st' c'. run p es st = Inr st' \<and> session_ok c' st'"
proof (induction es arbitrary: c st)
  case Nil
  then show ?case by auto
next
  case (Cons e es)
  from Cons.prems(2) have s1: "sorted (readings e)" and s2: "sorted (clock_readings es)"
    and s3: "\<forall>x\<in>set (readings e). \<forall>y\<in>set (clock_readings es). x \<le> y"
    by (simp_all add: clock_readings_def sorted_append)
  from Cons.prems(3) have g1: "\<forall>t\<in>set (readings e). c \<le> t"
    and g2: "\<forall>t\<in>set (clock_readings es). c \<le> t"
    by (simp_all add: clock_readings_def)
  from step_session_ok [OF Cons.prems(1) s1 g1]
  obtain st1 where st1: "step p e st = Inr st1" "session_ok (last (c # readings e)) st1"
    by blast
  have "last (c # readings e) \<in> set (c # readings e)" by (rule last_in_set) simp
  with s3 g2 have "\<forall>t\<in>set (clock_readings es). last (c # readings e) \<le> t" by auto
  from Cons.IH [OF st1(2) s2 this]
  obtain st' c' where "run p es st1 = Inr st'" "session_ok c' st'" by blast
  with st1 show ?case by auto
qed

text \<open>
  C8 as stated fails: the operations store what the clock returns and compare nothing.
  When the second reading of \<open>initialize_session\<close> is before the first, or the reading
  of \<open>update_activity\<close> is before the login, the session reached from the empty one has
  its last activity before its login time.
\<close>

theorem activity_after_login_counterexample:
  "run fromisoformat_basic [Establish etudiant 11 10] Map.empty =
     Inr (initialize_session etudiant 11 10 Map.empty) \<and>
   \<not> activity_after_login (initialize_session etudiant 11 10 Map.empty) \<and>
   run fromisoformat_basic [Establish etudiant 10 10, Touch 5] Map.empty =
     Inr (update_activity 5 (initialize_session etudiant 10 10 Map.empty)) \<and>
   \<not> activity_after_login (update_activity 5 (initialize_session etudiant 10 10 Map.empty))"
  by (simp add: activity_after_login_def update_activity_def is_authenticated_def
      initialize_session_apply role_keys)

text \<open>
  C8, amended. Start from the empty session and apply any sequence of
  \<open>initialize_session\<close>, \<open>update_activity\<close>, \<open>check_session_timeout\<close> and \<open>logout\<close>, the
  clock readings of the calls never decreasing. Then no call raises, and in the session
  reached the last activity is not before the login time (or both are absent).
\<close>

theorem activity_after_login_reachable:
  "sorted (clock_readings es) \<Longrightarrow>
   \<exists>st. run p es Map.empty = Inr st \<and> activity_after_login st"
proof -
  assume srt: "sorted (clock_readings es)"
  define c where "c = (case clock_readings es of [] \<Rightarrow> 0 | t # ts \<Rightarrow> t)"
  from srt have "\<forall>t\<in>set (clock_readings es). c \<le> t"
    by (cases "clock_readings es") (auto simp add: c_def)
  from run_session_ok [OF session_ok_empty srt this]
  show ?thesis by (blast intro: session_ok_invariant)
qed

lemma run_working_day:
  "run fromisoformat_basic working_day Map.empty =
     Inr (update_activity 60 (initialize_session etudiant 50 52
            (initialize_session professeur 40 40 Map.empty)))"
  by (simp add: working_day_def update_activity_def is_authenticated_def
      initialize_session_apply role_keys check_session_timeout_def logout_def logout_username_def)

theorem activity_after_login_reachable_witness:
  "sorted (clock_readings working_day) \<and>
   run fromisoformat_basic working_day Map.empty =
     Inr (update_activity 60 (initialize_session etudiant 50 52
            (initialize_session professeur 40 40 Map.empty))) \<and>
   activity_after_login (update_activity 60 (initialize_session etudiant 50 52
            (initialize_session professeur 40 40 Map.empty)))"
proof -
  have s: "sorted (clock_readings working_day)"
    by (simp add: clock_readings_def working_day_def)
  from activity_after_login_reachable [OF s, of fromisoformat_basic] run_working_day s
  show ?thesis by auto
qed

end
